theory Spec2Isabelle
  imports Complex_Main "HOL-Library.Sublist"
begin

section \<open>Python values used by \<open>src/srt_util/srt.py\<close>\<close>

text \<open>
  A Python \<open>str\<close> is a sequence of Unicode code points and \<open>len\<close> counts code points, so a
  character is modelled by its code point and a string by a list of code points. ASCII
  literals of the source are written through \<open>asc\<close>. Times are Python floats in the
  source; they are modelled by exact real numbers (no binary rounding).
\<close>

type_synonym pychar = nat
type_synonym pystr = "pychar list"

definition asc :: "string \<Rightarrow> pystr" where
  "asc s = map of_char s"

datatype py_error =
    IndexError | ValueError | ZeroDivisionError | OverflowError
  | NotImplementedError | UnboundLocalError | RecursionError

text \<open>\<open>xs[i]\<close> for a Python int \<open>i\<close>: a negative index counts from the end.\<close>

definition py_get :: "'a list \<Rightarrow> int \<Rightarrow> py_error + 'a" where
  "py_get xs i =
     (if 0 \<le> i \<and> i < int (length xs) then Inr (xs ! nat i)
      else if i < 0 \<and> - int (length xs) \<le> i then Inr (xs ! nat (int (length xs) + i))
      else Inl IndexError)"

text \<open>\<open>xs[lo:hi]\<close> for Python ints: negative bounds count from the end, then both are clamped.\<close>

definition py_clamp :: "nat \<Rightarrow> int \<Rightarrow> nat" where
  "py_clamp n i = (let j = (if i < 0 then int n + i else i) in nat (max 0 (min (int n) j)))"

definition py_slice :: "'a list \<Rightarrow> int \<Rightarrow> int \<Rightarrow> 'a list" where
  "py_slice xs lo hi = drop (py_clamp (length xs) lo) (take (py_clamp (length xs) hi) xs)"

text \<open>\<open>sub in s\<close> on strings: \<open>sub\<close> occurs somewhere in \<open>s\<close>.\<close>

fun py_in :: "pystr \<Rightarrow> pystr \<Rightarrow> bool" where
  "py_in sub [] = (sub = [])"
| "py_in sub (c # cs) = (prefix sub (c # cs) \<or> py_in sub cs)"

text \<open>
  \<open>s.split(sep)\<close> for a non-empty separator: the pieces between the non-overlapping
  occurrences of \<open>sep\<close>, found from the left; the result is never empty.
\<close>

fun split_from :: "pystr \<Rightarrow> pystr \<Rightarrow> pystr \<Rightarrow> pystr list" where
  "split_from sep piece [] = [piece]"
| "split_from sep piece (c # cs) =
     (if prefix sep (c # cs)
      then piece # split_from sep [] (drop (length sep - 1) cs)
      else split_from sep (piece @ [c]) cs)"

definition py_split :: "pystr \<Rightarrow> pystr \<Rightarrow> pystr list" where
  "py_split s sep = split_from sep [] s"

text \<open>
  \<open>[m.start() for m in re.finditer(pat, s)]\<close> for a non-empty pattern without regular
  expression operators (the comma strings of the table below and \<open>' '\<close>): the start
  positions of the non-overlapping occurrences of \<open>pat\<close>, found from the left.
\<close>

fun finditer_from :: "pystr \<Rightarrow> nat \<Rightarrow> pystr \<Rightarrow> nat list" where
  "finditer_from pat i [] = []"
| "finditer_from pat i (c # cs) =
     (if prefix pat (c # cs)
      then i # finditer_from pat (i + length pat) (drop (length pat - 1) cs)
      else finditer_from pat (Suc i) cs)"

definition finditer :: "pystr \<Rightarrow> pystr \<Rightarrow> nat list" where
  "finditer pat s = finditer_from pat 0 s"

text \<open>The code points for which \<open>str.isspace\<close> holds; \<open>lstrip()\<close> and \<open>strip()\<close> remove them.\<close>

definition py_isspace :: "pychar \<Rightarrow> bool" where
  "py_isspace c \<longleftrightarrow>
     (9 \<le> c \<and> c \<le> 13) \<or> (28 \<le> c \<and> c \<le> 32) \<or> c = 133 \<or> c = 160 \<or> c = 5760
     \<or> (8192 \<le> c \<and> c \<le> 8202) \<or> c = 8232 \<or> c = 8233 \<or> c = 8239 \<or> c = 8287 \<or> c = 12288"

definition py_lstrip :: "pystr \<Rightarrow> pystr" where
  "py_lstrip s = dropWhile py_isspace s"

definition py_strip :: "pystr \<Rightarrow> pystr" where
  "py_strip s = rev (dropWhile py_isspace (rev (dropWhile py_isspace s)))"

section \<open>The punctuation table\<close>

text \<open>
  The keys of \<open>punctuation_dict\<close>. Of each entry the code modelled here reads \<open>"comma"\<close> and
  \<open>"sentence_end"\<close>. The non-ASCII characters are given by code point: U+00A1 and U+00BF
  (inverted marks), U+3002, U+FF01, U+FF1F (ideographic full stop, fullwidth marks), U+FF0C
  and U+3001 (fullwidth and ideographic comma), U+060C and U+061F (Arabic comma and question
  mark).
\<close>

datatype lang = EN | ES | FR | DE | RU | ZH | JA | AR | KR

fun comma :: "lang \<Rightarrow> pystr" where
  "comma ZH = [65292]"
| "comma JA = [12289]"
| "comma AR = [1548, 32]"
| "comma _ = asc '', ''"

fun sentence_end :: "lang \<Rightarrow> pychar list" where
  "sentence_end ES = asc ''.!?;'' @ [161, 191]"
| "sentence_end ZH = [12290, 65281, 65311]"
| "sentence_end JA = [12290, 65281, 65311]"
| "sentence_end AR = asc ''.!?;'' @ [1567]"
| "sentence_end _ = asc ''.!?;''"

section \<open>Segments\<close>

text \<open>
  The attributes of an \<open>SrtSegment\<close>. The \<open>timedelta\<close> attributes \<open>start_time\<close> and
  \<open>end_time\<close> are only read inside the constructor, to print the two time strings, and are
  not kept. \<open>end_t\<close> is the attribute \<open>end\<close>.
\<close>

record segment =
  src_lang :: lang
  tgt_lang :: lang
  start :: real
  end_t :: real
  start_ms :: real
  end_ms :: real
  start_time_str :: pystr
  end_time_str :: pystr
  source_text :: pystr
  duration :: pystr
  translation :: pystr

text \<open>
  \<open>merge_seg\<close> changes the receiver in place. On values: the receiver after
  \<open>self.merge_seg(seg)\<close>, statement by statement, for an argument that is another object.
\<close>

definition merge_seg :: "segment \<Rightarrow> segment \<Rightarrow> segment" where
  "merge_seg self seg =
     (let s1 = self\<lparr>source_text := source_text self @ asc '' '' @ source_text seg\<rparr>;
          s2 = s1\<lparr>translation := translation s1 @ asc '' '' @ translation seg\<rparr>;
          s3 = s2\<lparr>end_time_str := end_time_str seg\<rparr>;
          s4 = s3\<lparr>end_t := end_t seg\<rparr>;
          s5 = s4\<lparr>end_ms := end_ms seg\<rparr>
      in s5\<lparr>duration := start_time_str s5 @ asc '' --> '' @ end_time_str s5\<rparr>)"

text \<open>\<open>__add__\<close> on values: \<open>deepcopy\<close> of a value is the value.\<close>

definition seg_add :: "segment \<Rightarrow> segment \<Rightarrow> segment" where
  "seg_add self other = (let result = self in merge_seg result other)"

subsection \<open>Segments as objects\<close>

text \<open>
  For the in-place reading of \<open>merge_seg\<close> and \<open>__add__\<close>, objects live in a store: a
  reference is an index into the list of all objects, and \<open>deepcopy\<close> allocates a new one
  at the end. Every statement of \<open>merge_seg\<close> reads the store as the previous statement left
  it, so receiver and argument may be the same object.
\<close>

type_synonym ref = nat
type_synonym store = "segment list"

definition set_source_text :: "ref \<Rightarrow> pystr \<Rightarrow> store \<Rightarrow> store" where
  "set_source_text r v h = h[r := (h ! r)\<lparr>source_text := v\<rparr>]"

definition set_translation_attr :: "ref \<Rightarrow> pystr \<Rightarrow> store \<Rightarrow> store" where
  "set_translation_attr r v h = h[r := (h ! r)\<lparr>translation := v\<rparr>]"

definition set_end_time_str :: "ref \<Rightarrow> pystr \<Rightarrow> store \<Rightarrow> store" where
  "set_end_time_str r v h = h[r := (h ! r)\<lparr>end_time_str := v\<rparr>]"

definition set_end :: "ref \<Rightarrow> real \<Rightarrow> store \<Rightarrow> store" where
  "set_end r v h = h[r := (h ! r)\<lparr>end_t := v\<rparr>]"

definition set_end_ms :: "ref \<Rightarrow> real \<Rightarrow> store \<Rightarrow> store" where
  "set_end_ms r v h = h[r := (h ! r)\<lparr>end_ms := v\<rparr>]"

definition set_duration :: "ref \<Rightarrow> pystr \<Rightarrow> store \<Rightarrow> store" where
  "set_duration r v h = h[r := (h ! r)\<lparr>duration := v\<rparr>]"

definition merge_seg_obj :: "store \<Rightarrow> ref \<Rightarrow> ref \<Rightarrow> store" where
  "merge_seg_obj h self seg =
     (let h1 = set_source_text self (source_text (h ! self) @ asc '' '' @ source_text (h ! seg)) h;
          h2 = set_translation_attr self
                 (translation (h1 ! self) @ asc '' '' @ translation (h1 ! seg)) h1;
          h3 = set_end_time_str self (end_time_str (h2 ! seg)) h2;
          h4 = set_end self (end_t (h3 ! seg)) h3;
          h5 = set_end_ms self (end_ms (h4 ! seg)) h4
      in set_duration self
           (start_time_str (h5 ! self) @ asc '' --> '' @ end_time_str (h5 ! self)) h5)"

definition deepcopy :: "store \<Rightarrow> ref \<Rightarrow> store \<times> ref" where
  "deepcopy h r = (h @ [h ! r], length h)"

definition add_obj :: "store \<Rightarrow> ref \<Rightarrow> ref \<Rightarrow> store \<times> ref" where
  "add_obj h self other =
     (let (h1, result) = deepcopy h self
      in (merge_seg_obj h1 result other, result))"

section \<open>The script: merging segments into sentences\<close>

record script =
  script_src_lang :: lang
  script_tgt_lang :: lang
  segments :: "segment list"

text \<open>
  \<open>merge_segs\<close>: the loop \<open>seg_result += self.segments[idx_list[idx]]\<close> for \<open>idx\<close> from 1;
  \<open>+=\<close> on a segment is \<open>__add__\<close>, since the class has no \<open>__iadd__\<close>.
\<close>

fun merge_segs_loop :: "segment list \<Rightarrow> segment \<Rightarrow> int list \<Rightarrow> py_error + segment" where
  "merge_segs_loop segs seg_result [] = Inr seg_result"
| "merge_segs_loop segs seg_result (i # rest) =
     (case py_get segs i of
        Inl e \<Rightarrow> Inl e
      | Inr s \<Rightarrow> merge_segs_loop segs (seg_add seg_result s) rest)"

definition merge_segs :: "script \<Rightarrow> int list \<Rightarrow> py_error + segment" where
  "merge_segs self idx_list =
     (case idx_list of
        [] \<Rightarrow> Inl NotImplementedError
      | i # rest \<Rightarrow>
          (case py_get (segments self) i of
             Inl e \<Rightarrow> Inl e
           | Inr seg_result \<Rightarrow>
               if length idx_list = 1 then Inr seg_result
               else merge_segs_loop (segments self) seg_result rest))"

text \<open>
  \<open>form_whole_sentence\<close>, first loop: \<open>merge_list\<close> and \<open>sentence\<close> after the segments from
  position \<open>i\<close> on. \<open>seg.source_text[-1]\<close> raises on an empty text.
\<close>

fun fws_scan ::
  "lang \<Rightarrow> segment list \<Rightarrow> nat \<Rightarrow> int list list \<Rightarrow> int list
     \<Rightarrow> py_error + (int list list \<times> int list)" where
  "fws_scan l [] i merge_list sentence = Inr (merge_list, sentence)"
| "fws_scan l (seg # rest) i merge_list sentence =
     (if source_text seg = [] then Inl IndexError
      else if last (source_text seg) \<in> set (sentence_end l)
              \<and> length (source_text seg) > 10
              \<and> \<not> py_in (asc ''vs.'') (source_text seg)
      then fws_scan l rest (Suc i) (merge_list @ [sentence @ [int i]]) []
      else fws_scan l rest (Suc i) merge_list (sentence @ [int i]))"

text \<open>Second loop: one merged segment for each index list of \<open>merge_list\<close>.\<close>

fun fws_rebuild :: "script \<Rightarrow> int list list \<Rightarrow> py_error + segment list" where
  "fws_rebuild self [] = Inr []"
| "fws_rebuild self (idx_list # rest) =
     (case merge_segs self idx_list of
        Inl e \<Rightarrow> Inl e
      | Inr s \<Rightarrow> (case fws_rebuild self rest of Inl e \<Rightarrow> Inl e | Inr ss \<Rightarrow> Inr (s # ss)))"

definition form_whole_sentence :: "script \<Rightarrow> py_error + script" where
  "form_whole_sentence self =
     (case fws_scan (script_src_lang self) (segments self) 0 [] [] of
        Inl e \<Rightarrow> Inl e
      | Inr (merge_list, sentence) \<Rightarrow>
          (case fws_rebuild self merge_list of
             Inl e \<Rightarrow> Inl e
           | Inr segs \<Rightarrow> Inr (self\<lparr>segments := segs\<rparr>)))"

section \<open>Predicates and sample data for the statements\<close>

text \<open>A segment with fixed times, to write sample collections.\<close>

definition plain_seg :: "pystr \<Rightarrow> pystr \<Rightarrow> segment" where
  "plain_seg text tr =
     \<lparr>src_lang = EN, tgt_lang = ZH, start = 0, end_t = 1, start_ms = 0, end_ms = 0,
      start_time_str = asc ''00:00:00,000'', end_time_str = asc ''00:00:01,000'',
      source_text = text, duration = asc ''00:00:00,000 --> 00:00:01,000'',
      translation = tr\<rparr>"

text \<open>
  The test of \<open>form_whole_sentence\<close> on a source text, with Python's \<open>in\<close> read as
  "occurs as a contiguous part".
\<close>

definition is_trigger :: "lang \<Rightarrow> pystr \<Rightarrow> bool" where
  "is_trigger l text \<longleftrightarrow>
     text \<noteq> [] \<and> last text \<in> set (sentence_end l) \<and> 10 < length text
     \<and> \<not> sublist (asc ''vs.'') text"

text \<open>The test as the specification words it: the text does not end in \<open>vs.\<close>\<close>

definition spec_trigger :: "lang \<Rightarrow> pystr \<Rightarrow> bool" where
  "spec_trigger l text \<longleftrightarrow>
     text \<noteq> [] \<and> last text \<in> set (sentence_end l) \<and> 10 < length text
     \<and> \<not> suffix (asc ''vs.'') text"

text \<open>
  A run of indices that was closed by its last segment, and a run that no segment has
  closed yet.
\<close>

definition closed_run :: "lang \<Rightarrow> segment list \<Rightarrow> int list \<Rightarrow> bool" where
  "closed_run l segs run \<longleftrightarrow>
     run \<noteq> [] \<and> is_trigger l (source_text (segs ! nat (last run)))
     \<and> (\<forall>j \<in> set (butlast run). \<not> is_trigger l (source_text (segs ! nat j)))"

definition open_run :: "lang \<Rightarrow> segment list \<Rightarrow> int list \<Rightarrow> bool" where
  "open_run l segs run \<longleftrightarrow> (\<forall>j \<in> set run. \<not> is_trigger l (source_text (segs ! nat j)))"

section \<open>Properties: merging\<close>

lemma py_in_sublist: "py_in sub s \<longleftrightarrow> sublist sub s"
  by (induction s) (auto simp: sublist_Cons_right)

text \<open>
  C8. Merging is associative: combining \<open>a\<close> with \<open>b\<close> and the result with \<open>c\<close> gives the
  same segment, in every attribute, as combining \<open>a\<close> with the combination of \<open>b\<close> and
  \<open>c\<close>, and it is what \<open>merge_segs\<close> returns for the three indices; the source text and the
  translation are the three texts joined by single spaces and the end time is that of \<open>c\<close>.
\<close>

theorem merge_associative:
  "seg_add (seg_add a b) c = seg_add a (seg_add b c)
   \<and> merge_segs \<lparr>script_src_lang = la, script_tgt_lang = lb, segments = [a, b, c]\<rparr> [0, 1, 2]
       = Inr (seg_add (seg_add a b) c)
   \<and> source_text (seg_add (seg_add a b) c)
       = source_text a @ asc '' '' @ source_text b @ asc '' '' @ source_text c
   \<and> translation (seg_add (seg_add a b) c)
       = translation a @ asc '' '' @ translation b @ asc '' '' @ translation c
   \<and> end_t (seg_add (seg_add a b) c) = end_t c"
  by (simp add: seg_add_def merge_seg_def Let_def merge_segs_def py_get_def)

text \<open>In place, for two different objects, \<open>merge_seg\<close> is the value-level merge.\<close>

lemma merge_seg_obj_distinct:
  assumes "self < length h" "seg < length h" "self \<noteq> seg"
  shows "merge_seg_obj h self seg = h[self := merge_seg (h ! self) (h ! seg)]"
  using assms
  by (simp add: merge_seg_obj_def merge_seg_def Let_def set_source_text_def
      set_translation_attr_def set_end_time_str_def set_end_def set_end_ms_def set_duration_def)

text \<open>
  C9. For two segment objects \<open>a\<close> and \<open>b\<close> of the store (the same object or not), \<open>a + b\<close>
  returns a new object whose value is the merge of a copy of \<open>a\<close> with \<open>b\<close>; the store is
  otherwise as before, so \<open>a\<close> and \<open>b\<close> keep every attribute.
\<close>

theorem add_returns_new_segment:
  assumes "a < length h" and "b < length h"
  shows "add_obj h a b = (h @ [merge_seg (h ! a) (h ! b)], length h)
         \<and> fst (add_obj h a b) ! a = h ! a \<and> fst (add_obj h a b) ! b = h ! b
         \<and> fst (add_obj h a b) ! snd (add_obj h a b)
             = merge_seg_obj (fst (deepcopy h a)) (snd (deepcopy h a)) b ! snd (deepcopy h a)"
proof -
  let ?h1 = "h @ [h ! a]"
  have "merge_seg_obj ?h1 (length h) b
          = ?h1[length h := merge_seg (?h1 ! length h) (?h1 ! b)]"
    using assms by (intro merge_seg_obj_distinct) auto
  then have m: "merge_seg_obj ?h1 (length h) b = h @ [merge_seg (h ! a) (h ! b)]"
    using assms by (simp add: nth_append)
  show ?thesis
    using assms m by (simp add: add_obj_def deepcopy_def nth_append)
qed

theorem add_returns_new_segment_witness:
  "(0::nat) < length [plain_seg (asc ''Hello'') (asc ''a''), plain_seg (asc ''world.'') (asc ''b'')]
   \<and> add_obj [plain_seg (asc ''Hello'') (asc ''a''), plain_seg (asc ''world.'') (asc ''b'')] 0 0
       = ([plain_seg (asc ''Hello'') (asc ''a''), plain_seg (asc ''world.'') (asc ''b''),
           plain_seg (asc ''Hello Hello'') (asc ''a a'')], 2)"
  using add_returns_new_segment
    [of 0 "[plain_seg (asc ''Hello'') (asc ''a''), plain_seg (asc ''world.'') (asc ''b'')]" 0]
  by (simp add: plain_seg_def merge_seg_def asc_def)

section \<open>Properties: forming whole sentences\<close>

lemma fws_scan_inv:
  assumes "fws_scan l segs i ml sent = Inr (ml', sent')"
    and "whole = pre @ segs" and "i = length pre"
    and "concat ml @ sent = map int [0..<i]"
    and "\<forall>run \<in> set ml. closed_run l whole run" and "open_run l whole sent"
  shows "concat ml' @ sent' = map int [0..<length whole]
         \<and> (\<forall>run \<in> set ml'. closed_run l whole run) \<and> open_run l whole sent'"
  using assms
proof (induction segs arbitrary: i ml sent pre)
  case Nil
  then show ?case by simp
next
  case (Cons seg rest)
  have ne: "source_text seg \<noteq> []" using Cons.prems(1) by (auto split: if_splits)
  have at: "whole ! i = seg" using Cons.prems(2,3) by simp
  have w: "whole = (pre @ [seg]) @ rest" "Suc i = length (pre @ [seg])"
    using Cons.prems(2,3) by simp_all
  show ?case
  proof (cases "is_trigger l (source_text seg)")
    case True
    then have step: "fws_scan l rest (Suc i) (ml @ [sent @ [int i]]) [] = Inr (ml', sent')"
      using Cons.prems(1) ne by (simp add: is_trigger_def py_in_sublist)
    have c: "concat (ml @ [sent @ [int i]]) @ [] = map int [0..<Suc i]"
      using Cons.prems(4) by simp
    have r: "\<forall>run \<in> set (ml @ [sent @ [int i]]). closed_run l whole run"
      using Cons.prems(5,6) True at by (auto simp: closed_run_def open_run_def)
    show ?thesis
      using Cons.IH[OF step w c r] by (simp add: open_run_def)
  next
    case False
    then have step: "fws_scan l rest (Suc i) ml (sent @ [int i]) = Inr (ml', sent')"
      using Cons.prems(1) ne by (auto simp add: is_trigger_def py_in_sublist split: if_splits)
    have c: "concat ml @ (sent @ [int i]) = map int [0..<Suc i]"
      using Cons.prems(4) by simp
    have r: "open_run l whole (sent @ [int i])"
      using Cons.prems(6) False at by (auto simp: open_run_def)
    show ?thesis
      using Cons.IH[OF step w c Cons.prems(5) r] by simp
  qed
qed

text \<open>
  C1, on a collection whose last segment does not close a sentence: the first segment
  closes a run, the second stays in \<open>sentence\<close> when the loop ends, and the rewritten
  collection holds the first segment only.
\<close>

theorem trailing_run_dropped:
  "form_whole_sentence \<lparr>script_src_lang = EN, script_tgt_lang = ZH,
      segments = [plain_seg (asc ''Hello world, this is one.'') [],
                  plain_seg (asc ''and a trailing part'') []]\<rparr>
   = Inr \<lparr>script_src_lang = EN, script_tgt_lang = ZH,
      segments = [plain_seg (asc ''Hello world, this is one.'') []]\<rparr>
   \<and> fws_scan EN [plain_seg (asc ''Hello world, this is one.'') [],
                  plain_seg (asc ''and a trailing part'') []] 0 [] [] = Inr ([[0]], [1])"
  by (simp add: form_whole_sentence_def asc_def plain_seg_def merge_segs_def py_get_def)

text \<open>
  C5, as the code has it. When the scan of \<open>form_whole_sentence\<close> returns, the runs of
  \<open>merge_list\<close> followed by the unfinished \<open>sentence\<close> are the indices in order; every run of
  \<open>merge_list\<close> ends with a segment whose text ends with a sentence terminator of the
  source language, is longer than 10 and does not contain \<open>vs.\<close> anywhere, and no other
  segment of a run, and no segment of the unfinished \<open>sentence\<close>, passes that test.
\<close>

theorem runs_closed_exactly_at_triggers:
  assumes "fws_scan l segs 0 [] [] = Inr (merge_list, sentence)"
  shows "concat merge_list @ sentence = map int [0..<length segs]
         \<and> (\<forall>run \<in> set merge_list. closed_run l segs run) \<and> open_run l segs sentence"
  using fws_scan_inv[OF assms, of segs "[]"] by (simp add: open_run_def)

theorem runs_closed_exactly_at_triggers_witness:
  "fws_scan EN [plain_seg (asc ''Short one.'') [], plain_seg (asc ''This one is long enough.'') [],
                plain_seg (asc ''left over'') []] 0 [] [] = Inr ([[0, 1]], [2])
   \<and> concat [[0, 1]] @ [2] = map int [0..<length
        [plain_seg (asc ''Short one.'') [], plain_seg (asc ''This one is long enough.'') [],
         plain_seg (asc ''left over'') []]]
   \<and> closed_run EN
        [plain_seg (asc ''Short one.'') [], plain_seg (asc ''This one is long enough.'') [],
         plain_seg (asc ''left over'') []] [0, 1]
   \<and> open_run EN
        [plain_seg (asc ''Short one.'') [], plain_seg (asc ''This one is long enough.'') [],
         plain_seg (asc ''left over'') []] [2]"
proof -
  have h: "fws_scan EN [plain_seg (asc ''Short one.'') [],
                plain_seg (asc ''This one is long enough.'') [],
                plain_seg (asc ''left over'') []] 0 [] [] = Inr ([[0, 1]], [2])"
    by (simp add: asc_def plain_seg_def)
  show ?thesis
    using h runs_closed_exactly_at_triggers[OF h] by simp
qed

text \<open>
  The text \<open>A vs. B is the game.\<close> ends with a terminator, is longer than 10 and does not
  end in \<open>vs.\<close>, yet it closes no run: it is merged with the segment after it.
\<close>

theorem vs_inside_text_counterexample:
  "spec_trigger EN (asc ''A vs. B is the game.'')
   \<and> fws_scan EN [plain_seg (asc ''A vs. B is the game.'') [],
                  plain_seg (asc ''Next sentence here.'') []] 0 [] [] = Inr ([[0, 1]], [])"
  by (simp add: spec_trigger_def asc_def plain_seg_def suffix_def)

end
